theory Spec2Isabelle
  imports Main "HOL-Library.Word" "HOL-Library.Monad_Syntax"
begin

section \<open>Values, errors and dictionaries\<close>

text \<open>
  The service keeps two module-level dictionaries, \<^verbatim>\<open>persons\<close> and \<^verbatim>\<open>mistakes\<close>, keyed by
  UUID. Its handlers build Pydantic model instances from keyword dictionaries, dump
  instances back to dictionaries, and merge dictionaries. The embedding follows that:
  model instances are records, dumps are association lists from field names to Python
  values, and every \<^verbatim>\<open>raise\<close> is a value of type \<open>error\<close>.
\<close>

type_synonym uuid = "128 word"

text \<open>Python's \<^verbatim>\<open>datetime.date\<close> and its subclass \<^verbatim>\<open>datetime.datetime\<close>.\<close>

record date =
  year :: nat
  month :: nat
  day :: nat

record datetime = date +
  hour :: nat
  minute :: nat
  second :: nat
  microsecond :: nat

text \<open>
  The exceptions a handler can raise: \<^verbatim>\<open>HTTPException(status_code, detail)\<close>, Pydantic's
  \<^verbatim>\<open>ValidationError\<close>, and the built-in \<^verbatim>\<open>AttributeError\<close>, \<^verbatim>\<open>TypeError\<close>, \<^verbatim>\<open>KeyError\<close>;
  \<open>GaiError\<close> is \<^verbatim>\<open>socket.gaierror\<close>.
\<close>

datatype error =
    HTTPException nat string
  | ValidationError
  | AttributeError
  | TypeError
  | KeyError
  | GaiError

text \<open>The Python values that occur as field values in a dumped model.\<close>

datatype pyval =
    PNone
  | PStr string
  | PUuid uuid
  | PDate date
  | PDatetime datetime
  | PList "pyval list"
  | PDict "(string \<times> pyval) list"

type_synonym kwargs = "(string \<times> pyval) list"

text \<open>
  A Python \<^verbatim>\<open>dict\<close> keeps insertion order: \<^verbatim>\<open>d[k] = v\<close> replaces the value of an existing
  key in place and appends a new key at the end; \<^verbatim>\<open>del d[k]\<close> removes the key;
  \<^verbatim>\<open>d.update(e)\<close> assigns the items of \<^verbatim>\<open>e\<close> in order.
\<close>

type_synonym ('k, 'v) dict = "('k \<times> 'v) list"

definition dict_contains :: "('k, 'v) dict \<Rightarrow> 'k \<Rightarrow> bool" where
  "dict_contains d k = (map_of d k \<noteq> None)"

definition dict_getitem :: "('k, 'v) dict \<Rightarrow> 'k \<Rightarrow> error + 'v" where
  "dict_getitem d k = (case map_of d k of None \<Rightarrow> Inl KeyError | Some v \<Rightarrow> Inr v)"

fun dict_setitem :: "('k, 'v) dict \<Rightarrow> 'k \<Rightarrow> 'v \<Rightarrow> ('k, 'v) dict" where
  "dict_setitem [] k v = [(k, v)]"
| "dict_setitem ((k', v') # d) k v =
     (if k' = k then (k, v) # d else (k', v') # dict_setitem d k v)"

definition dict_delitem :: "('k, 'v) dict \<Rightarrow> 'k \<Rightarrow> ('k, 'v) dict" where
  "dict_delitem d k = filter (\<lambda>p. fst p \<noteq> k) d"

definition dict_values :: "('k, 'v) dict \<Rightarrow> 'v list" where
  "dict_values d = map snd d"

fun dict_update :: "('k, 'v) dict \<Rightarrow> ('k, 'v) dict \<Rightarrow> ('k, 'v) dict" where
  "dict_update d [] = d"
| "dict_update d ((k, v) # e) = dict_update (dict_setitem d k v) e"

text \<open>
  \<^verbatim>\<open>model_dump(exclude_unset=True)\<close> tells a field that the caller never supplied from one
  supplied as \<^verbatim>\<open>null\<close>: a field of an update model is \<open>Unset\<close>, or \<open>Given\<close> a value.
\<close>

datatype 'a field = Unset | Given 'a

fun dump_field :: "string \<Rightarrow> ('a \<Rightarrow> pyval) \<Rightarrow> 'a option field \<Rightarrow> kwargs" where
  "dump_field name conv Unset = []"
| "dump_field name conv (Given None) = [(name, PNone)]"
| "dump_field name conv (Given (Some v)) = [(name, conv v)]"

text \<open>
  Fields with a \<^verbatim>\<open>default_factory\<close> (\<^verbatim>\<open>uuid4\<close>, \<^verbatim>\<open>datetime.utcnow\<close>) read the outside world
  when the key is missing. Each factory of a model is a separate call, so a constructor
  receives one reading per factory: the UUID for \<^verbatim>\<open>id\<close>, the UUID for the embedded entry
  at each position of a \<^verbatim>\<open>mistake\<close> list, and one clock reading each for \<^verbatim>\<open>created_at\<close>
  and for \<^verbatim>\<open>updated_at\<close> (Pydantic fills the fields in declaration order, so
  \<open>utcnow_created\<close> is read before \<open>utcnow_updated\<close>).
\<close>

record factories =
  uuid4 :: uuid
  uuid4_nested :: "nat \<Rightarrow> uuid"
  utcnow_created :: datetime
  utcnow_updated :: datetime

text \<open>
  Field validators, by annotation. The argument is the value found under the field's
  key (\<open>None\<close> when the key is missing); the result is \<open>None\<close> when Pydantic rejects the
  value. Only the shapes that a dumped model can hold are accepted; Pydantic's
  conversions between types (a string parsed as a UUID or a date) are not part of the
  embedding.
\<close>

fun str_required :: "pyval option \<Rightarrow> string option" where
  "str_required (Some (PStr s)) = Some s"
| "str_required _ = None"

fun uuid_factory :: "uuid \<Rightarrow> pyval option \<Rightarrow> uuid option" where
  "uuid_factory fresh None = Some fresh"
| "uuid_factory fresh (Some (PUuid u)) = Some u"
| "uuid_factory fresh _ = None"

fun datetime_factory :: "datetime \<Rightarrow> pyval option \<Rightarrow> datetime option" where
  "datetime_factory now None = Some now"
| "datetime_factory now (Some (PDatetime t)) = Some t"
| "datetime_factory now _ = None"

section \<open>Mistake models (models/mistake.py)\<close>

record MistakeBase =
  id :: uuid
  subject :: string
  key_concept :: string
  prompt :: string
  correct_answer :: string
  wrong_answer :: string
  reflection :: string

type_synonym MistakeCreate = MistakeBase

record MistakeRead = MistakeBase +
  created_at :: datetime
  updated_at :: datetime

record MistakeUpdate =
  subject :: "string option field"
  key_concept :: "string option field"
  prompt :: "string option field"
  correct_answer :: "string option field"
  wrong_answer :: "string option field"
  reflection :: "string option field"

definition MistakeBase_model_dump :: "'a MistakeBase_scheme \<Rightarrow> kwargs" where
  "MistakeBase_model_dump m =
     [(''id'', PUuid (MistakeBase.id m)),
      (''subject'', PStr (MistakeBase.subject m)),
      (''key_concept'', PStr (MistakeBase.key_concept m)),
      (''prompt'', PStr (MistakeBase.prompt m)),
      (''correct_answer'', PStr (MistakeBase.correct_answer m)),
      (''wrong_answer'', PStr (MistakeBase.wrong_answer m)),
      (''reflection'', PStr (MistakeBase.reflection m))]"

definition MistakeRead_model_dump :: "MistakeRead \<Rightarrow> kwargs" where
  "MistakeRead_model_dump m =
     MistakeBase_model_dump m @
     [(''created_at'', PDatetime (MistakeRead.created_at m)),
      (''updated_at'', PDatetime (MistakeRead.updated_at m))]"

definition MistakeUpdate_model_dump_exclude_unset :: "MistakeUpdate \<Rightarrow> kwargs" where
  "MistakeUpdate_model_dump_exclude_unset u =
     dump_field ''subject'' PStr (MistakeUpdate.subject u) @
     dump_field ''key_concept'' PStr (MistakeUpdate.key_concept u) @
     dump_field ''prompt'' PStr (MistakeUpdate.prompt u) @
     dump_field ''correct_answer'' PStr (MistakeUpdate.correct_answer u) @
     dump_field ''wrong_answer'' PStr (MistakeUpdate.wrong_answer u) @
     dump_field ''reflection'' PStr (MistakeUpdate.reflection u)"

text \<open>
  \<^verbatim>\<open>MistakeBase(**kw)\<close> and \<^verbatim>\<open>MistakeRead(**kw)\<close>: every field is validated, a missing
  \<^verbatim>\<open>id\<close>, \<^verbatim>\<open>created_at\<close> or \<^verbatim>\<open>updated_at\<close> is taken from its factory, keys that name no
  field are ignored, and any rejected field raises \<^verbatim>\<open>ValidationError\<close>.
\<close>

definition MistakeBase_validate :: "uuid \<Rightarrow> kwargs \<Rightarrow> MistakeBase option" where
  "MistakeBase_validate fresh kw =
     do {
       i \<leftarrow> uuid_factory fresh (map_of kw ''id'');
       s \<leftarrow> str_required (map_of kw ''subject'');
       k \<leftarrow> str_required (map_of kw ''key_concept'');
       p \<leftarrow> str_required (map_of kw ''prompt'');
       c \<leftarrow> str_required (map_of kw ''correct_answer'');
       w \<leftarrow> str_required (map_of kw ''wrong_answer'');
       r \<leftarrow> str_required (map_of kw ''reflection'');
       Some \<lparr>MistakeBase.id = i, MistakeBase.subject = s, MistakeBase.key_concept = k,
             MistakeBase.prompt = p, MistakeBase.correct_answer = c,
             MistakeBase.wrong_answer = w, MistakeBase.reflection = r\<rparr>
     }"

definition MistakeBase_init :: "uuid \<Rightarrow> kwargs \<Rightarrow> error + MistakeBase" where
  "MistakeBase_init fresh kw =
     (case MistakeBase_validate fresh kw of
        None \<Rightarrow> Inl ValidationError
      | Some m \<Rightarrow> Inr m)"

definition MistakeRead_validate :: "factories \<Rightarrow> kwargs \<Rightarrow> MistakeRead option" where
  "MistakeRead_validate f kw =
     do {
       i \<leftarrow> uuid_factory (uuid4 f) (map_of kw ''id'');
       s \<leftarrow> str_required (map_of kw ''subject'');
       k \<leftarrow> str_required (map_of kw ''key_concept'');
       p \<leftarrow> str_required (map_of kw ''prompt'');
       c \<leftarrow> str_required (map_of kw ''correct_answer'');
       w \<leftarrow> str_required (map_of kw ''wrong_answer'');
       r \<leftarrow> str_required (map_of kw ''reflection'');
       ca \<leftarrow> datetime_factory (utcnow_created f) (map_of kw ''created_at'');
       ua \<leftarrow> datetime_factory (utcnow_updated f) (map_of kw ''updated_at'');
       Some \<lparr>MistakeBase.id = i, MistakeBase.subject = s, MistakeBase.key_concept = k,
             MistakeBase.prompt = p, MistakeBase.correct_answer = c,
             MistakeBase.wrong_answer = w, MistakeBase.reflection = r,
             MistakeRead.created_at = ca, MistakeRead.updated_at = ua\<rparr>
     }"

definition MistakeRead_init :: "factories \<Rightarrow> kwargs \<Rightarrow> error + MistakeRead" where
  "MistakeRead_init f kw =
     (case MistakeRead_validate f kw of
        None \<Rightarrow> Inl ValidationError
      | Some m \<Rightarrow> Inr m)"

section \<open>Person models (models/person.py)\<close>

text \<open>
  The declarations are read field by field at their evident meaning: \<^verbatim>\<open>GradeLevel\<close> is the
  \<^verbatim>\<open>Literal\<close> of the seven tags (the module uses \<^verbatim>\<open>Literal\<close> without importing it), and the
  arguments of the \<^verbatim>\<open>Field\<close> of \<^verbatim>\<open>first_name\<close> are read as if the comma between them were
  there.
\<close>

definition GradeLevel :: "string list" where
  "GradeLevel = [''K-5'', ''6-8'', ''9-12'', ''Undergrad'', ''Graduate'', ''Adult'', ''Other'']"

record PersonBase =
  first_name :: string
  last_name :: string
  email :: string
  birth_date :: "date option"
  grade_level :: "string option"
  mistake :: "MistakeBase list"

type_synonym PersonCreate = PersonBase

record PersonRead = PersonBase +
  id :: uuid
  created_at :: datetime
  updated_at :: datetime

record PersonUpdate =
  first_name :: "string option field"
  last_name :: "string option field"
  email :: "string option field"
  birth_date :: "date option field"
  grade_level :: "string option field"
  mistake :: "MistakeBase list option field"

definition dump_date :: "date option \<Rightarrow> pyval" where
  "dump_date d = (case d of None \<Rightarrow> PNone | Some x \<Rightarrow> PDate x)"

definition dump_str :: "string option \<Rightarrow> pyval" where
  "dump_str s = (case s of None \<Rightarrow> PNone | Some x \<Rightarrow> PStr x)"

definition dump_mistakes :: "MistakeBase list \<Rightarrow> pyval" where
  "dump_mistakes ms = PList (map (\<lambda>m. PDict (MistakeBase_model_dump m)) ms)"

definition PersonBase_model_dump :: "'a PersonBase_scheme \<Rightarrow> kwargs" where
  "PersonBase_model_dump p =
     [(''first_name'', PStr (PersonBase.first_name p)),
      (''last_name'', PStr (PersonBase.last_name p)),
      (''email'', PStr (PersonBase.email p)),
      (''birth_date'', dump_date (PersonBase.birth_date p)),
      (''grade_level'', dump_str (PersonBase.grade_level p)),
      (''mistake'', dump_mistakes (PersonBase.mistake p))]"

definition PersonRead_model_dump :: "PersonRead \<Rightarrow> kwargs" where
  "PersonRead_model_dump p =
     PersonBase_model_dump p @
     [(''id'', PUuid (PersonRead.id p)),
      (''created_at'', PDatetime (PersonRead.created_at p)),
      (''updated_at'', PDatetime (PersonRead.updated_at p))]"

definition PersonUpdate_model_dump_exclude_unset :: "PersonUpdate \<Rightarrow> kwargs" where
  "PersonUpdate_model_dump_exclude_unset u =
     dump_field ''first_name'' PStr (PersonUpdate.first_name u) @
     dump_field ''last_name'' PStr (PersonUpdate.last_name u) @
     dump_field ''email'' PStr (PersonUpdate.email u) @
     dump_field ''birth_date'' PDate (PersonUpdate.birth_date u) @
     dump_field ''grade_level'' PStr (PersonUpdate.grade_level u) @
     dump_field ''mistake'' dump_mistakes (PersonUpdate.mistake u)"

text \<open>
  \<^verbatim>\<open>EmailStr\<close> is checked by the email-validator package, which is no part of this
  repository: the check is the parameter \<open>ev\<close>, which returns the normalised address or
  \<open>None\<close>.
\<close>

fun email_required :: "(string \<Rightarrow> string option) \<Rightarrow> pyval option \<Rightarrow> string option" where
  "email_required ev (Some (PStr s)) = ev s"
| "email_required ev _ = None"

fun date_optional :: "pyval option \<Rightarrow> date option option" where
  "date_optional None = Some None"
| "date_optional (Some PNone) = Some None"
| "date_optional (Some (PDate d)) = Some (Some d)"
| "date_optional _ = None"

fun grade_level_optional :: "pyval option \<Rightarrow> string option option" where
  "grade_level_optional None = Some None"
| "grade_level_optional (Some PNone) = Some None"
| "grade_level_optional (Some (PStr g)) = (if g \<in> set GradeLevel then Some (Some g) else None)"
| "grade_level_optional _ = None"

fun validate_entries :: "(nat \<Rightarrow> uuid) \<Rightarrow> nat \<Rightarrow> pyval list \<Rightarrow> MistakeBase list option" where
  "validate_entries g i [] = Some []"
| "validate_entries g i (PDict kw # xs) =
     do {
       m \<leftarrow> MistakeBase_validate (g i) kw;
       ms \<leftarrow> validate_entries g (Suc i) xs;
       Some (m # ms)
     }"
| "validate_entries g i (_ # xs) = None"

fun mistake_list_factory :: "(nat \<Rightarrow> uuid) \<Rightarrow> pyval option \<Rightarrow> MistakeBase list option" where
  "mistake_list_factory g None = Some []"
| "mistake_list_factory g (Some (PList xs)) = validate_entries g 0 xs"
| "mistake_list_factory g _ = None"

definition PersonBase_validate ::
  "(string \<Rightarrow> string option) \<Rightarrow> factories \<Rightarrow> kwargs \<Rightarrow> PersonBase option" where
  "PersonBase_validate ev f kw =
     do {
       fn \<leftarrow> str_required (map_of kw ''first_name'');
       ln \<leftarrow> str_required (map_of kw ''last_name'');
       em \<leftarrow> email_required ev (map_of kw ''email'');
       bd \<leftarrow> date_optional (map_of kw ''birth_date'');
       gl \<leftarrow> grade_level_optional (map_of kw ''grade_level'');
       ms \<leftarrow> mistake_list_factory (uuid4_nested f) (map_of kw ''mistake'');
       Some \<lparr>PersonBase.first_name = fn, PersonBase.last_name = ln, PersonBase.email = em,
             PersonBase.birth_date = bd, PersonBase.grade_level = gl,
             PersonBase.mistake = ms\<rparr>
     }"

definition PersonCreate_init ::
  "(string \<Rightarrow> string option) \<Rightarrow> factories \<Rightarrow> kwargs \<Rightarrow> error + PersonCreate" where
  "PersonCreate_init ev f kw =
     (case PersonBase_validate ev f kw of
        None \<Rightarrow> Inl ValidationError
      | Some p \<Rightarrow> Inr p)"

definition PersonRead_validate ::
  "(string \<Rightarrow> string option) \<Rightarrow> factories \<Rightarrow> kwargs \<Rightarrow> PersonRead option" where
  "PersonRead_validate ev f kw =
     do {
       fn \<leftarrow> str_required (map_of kw ''first_name'');
       ln \<leftarrow> str_required (map_of kw ''last_name'');
       em \<leftarrow> email_required ev (map_of kw ''email'');
       bd \<leftarrow> date_optional (map_of kw ''birth_date'');
       gl \<leftarrow> grade_level_optional (map_of kw ''grade_level'');
       ms \<leftarrow> mistake_list_factory (uuid4_nested f) (map_of kw ''mistake'');
       i \<leftarrow> uuid_factory (uuid4 f) (map_of kw ''id'');
       ca \<leftarrow> datetime_factory (utcnow_created f) (map_of kw ''created_at'');
       ua \<leftarrow> datetime_factory (utcnow_updated f) (map_of kw ''updated_at'');
       Some \<lparr>PersonBase.first_name = fn, PersonBase.last_name = ln, PersonBase.email = em,
             PersonBase.birth_date = bd, PersonBase.grade_level = gl,
             PersonBase.mistake = ms, PersonRead.id = i,
             PersonRead.created_at = ca, PersonRead.updated_at = ua\<rparr>
     }"

definition PersonRead_init ::
  "(string \<Rightarrow> string option) \<Rightarrow> factories \<Rightarrow> kwargs \<Rightarrow> error + PersonRead" where
  "PersonRead_init ev f kw =
     (case PersonRead_validate ev f kw of
        None \<Rightarrow> Inl ValidationError
      | Some p \<Rightarrow> Inr p)"

section \<open>The stores and the handlers (main.py)\<close>

record store =
  persons :: "(uuid, PersonRead) dict"
  mistakes :: "(uuid, MistakeRead) dict"

text \<open>
  A handler maps the stores to its outcome (the returned value, or the exception
  raised) and the stores it leaves behind. The status of the response is the
  decorator's \<^verbatim>\<open>status_code\<close> on success and the exception's own on an \<^verbatim>\<open>HTTPException\<close>; any
  other exception that leaves a handler is a 500.
\<close>

fun status_of :: "nat \<Rightarrow> error + 'a \<Rightarrow> nat" where
  "status_of ok (Inr v) = ok"
| "status_of ok (Inl (HTTPException code detail)) = code"
| "status_of ok (Inl e) = 500"

subsection \<open>Mistake endpoints\<close>

definition create_mistake ::
  "factories \<Rightarrow> MistakeCreate \<Rightarrow> store \<Rightarrow> (error + MistakeRead) \<times> store" where
  "create_mistake f mistake' st =
     (if dict_contains (mistakes st) (MistakeBase.id mistake')
      then (Inl (HTTPException 400 ''Mistake with this ID already exists''), st)
      else (case MistakeRead_init f (MistakeBase_model_dump mistake') of
              Inl e \<Rightarrow> (Inl e, st)
            | Inr r \<Rightarrow>
                (let st' = st\<lparr>mistakes := dict_setitem (mistakes st) (MistakeBase.id mistake') r\<rparr>
                 in (dict_getitem (mistakes st') (MistakeBase.id mistake'), st'))))"

definition apply_filter :: "('a \<Rightarrow> string) \<Rightarrow> string option \<Rightarrow> 'a list \<Rightarrow> 'a list" where
  "apply_filter attr q results =
     (case q of None \<Rightarrow> results | Some v \<Rightarrow> filter (\<lambda>a. attr a = v) results)"

definition list_mistakes ::
  "string option \<Rightarrow> string option \<Rightarrow> string option \<Rightarrow> string option \<Rightarrow> string option \<Rightarrow>
   string option \<Rightarrow> store \<Rightarrow> MistakeRead list" where
  "list_mistakes subject' key_concept' prompt' correct_answer' wrong_answer' reflection' st =
     (let results = dict_values (mistakes st);
          results = apply_filter MistakeBase.subject subject' results;
          results = apply_filter MistakeBase.key_concept key_concept' results;
          results = apply_filter MistakeBase.prompt prompt' results;
          results = apply_filter MistakeBase.correct_answer correct_answer' results;
          results = apply_filter MistakeBase.wrong_answer wrong_answer' results;
          results = apply_filter MistakeBase.reflection reflection' results
      in results)"

definition get_mistakes :: "uuid \<Rightarrow> store \<Rightarrow> error + MistakeRead" where
  "get_mistakes mistakes_id st =
     (if \<not> dict_contains (mistakes st) mistakes_id
      then Inl (HTTPException 404 ''Mistake not found'')
      else dict_getitem (mistakes st) mistakes_id)"

definition update_mistake ::
  "factories \<Rightarrow> uuid \<Rightarrow> MistakeUpdate \<Rightarrow> store \<Rightarrow> (error + MistakeRead) \<times> store" where
  "update_mistake f mistakes_id update' st =
     (if \<not> dict_contains (mistakes st) mistakes_id
      then (Inl (HTTPException 404 ''Mistake not found''), st)
      else (case dict_getitem (mistakes st) mistakes_id of
              Inl e \<Rightarrow> (Inl e, st)
            | Inr old \<Rightarrow>
                (let stored = dict_update (MistakeRead_model_dump old)
                                (MistakeUpdate_model_dump_exclude_unset update')
                 in (case MistakeRead_init f stored of
                       Inl e \<Rightarrow> (Inl e, st)
                     | Inr r \<Rightarrow>
                         (let st' = st\<lparr>mistakes := dict_setitem (mistakes st) mistakes_id r\<rparr>
                          in (dict_getitem (mistakes st') mistakes_id, st'))))))"

definition delete_mistake :: "uuid \<Rightarrow> store \<Rightarrow> (error + unit) \<times> store" where
  "delete_mistake mistakes_id st =
     (if \<not> dict_contains (mistakes st) mistakes_id
      then (Inl (HTTPException 404 ''Mistake not found''), st)
      else (Inr (), st\<lparr>mistakes := dict_delitem (mistakes st) mistakes_id\<rparr>))"

subsection \<open>Person endpoints\<close>

definition create_person ::
  "(string \<Rightarrow> string option) \<Rightarrow> factories \<Rightarrow> PersonCreate \<Rightarrow> store \<Rightarrow>
   (error + PersonRead) \<times> store" where
  "create_person ev f person st =
     (case PersonRead_init ev f (PersonBase_model_dump person) of
        Inl e \<Rightarrow> (Inl e, st)
      | Inr person_read \<Rightarrow>
          (Inr person_read,
           st\<lparr>persons := dict_setitem (persons st) (PersonRead.id person_read) person_read\<rparr>))"

text \<open>
  Attribute access on a model instance finds the declared fields and raises
  \<^verbatim>\<open>AttributeError\<close> for any other name. The instance is looked up through its dump, whose
  keys are exactly the declared fields; an embedded entry is the dictionary of its
  fields.
\<close>

definition getattr :: "kwargs \<Rightarrow> string \<Rightarrow> error + pyval" where
  "getattr attrs name =
     (case map_of attrs name of None \<Rightarrow> Inl AttributeError | Some v \<Rightarrow> Inr v)"

fun entry_getattr :: "pyval \<Rightarrow> string \<Rightarrow> error + pyval" where
  "entry_getattr (PDict attrs) name = getattr attrs name"
| "entry_getattr _ name = Inl AttributeError"

text \<open>\<^verbatim>\<open>any(mistake.<name> == value for mistake in entries)\<close>: stops at the first match.\<close>

fun any_attr_equals :: "string \<Rightarrow> string \<Rightarrow> pyval list \<Rightarrow> error + bool" where
  "any_attr_equals name v [] = Inr False"
| "any_attr_equals name v (m # ms) =
     (case entry_getattr m name of
        Inl e \<Rightarrow> Inl e
      | Inr x \<Rightarrow> if x = PStr v then Inr True else any_attr_equals name v ms)"

text \<open>The condition of the nested filters: the entries iterated are \<^verbatim>\<open>p.mistakes\<close>.\<close>

definition any_mistake :: "string \<Rightarrow> string \<Rightarrow> PersonRead \<Rightarrow> error + bool" where
  "any_mistake name v p =
     (case getattr (PersonRead_model_dump p) ''mistakes'' of
        Inl e \<Rightarrow> Inl e
      | Inr (PList entries) \<Rightarrow> any_attr_equals name v entries
      | Inr _ \<Rightarrow> Inl TypeError)"

text \<open>A list comprehension whose condition may raise.\<close>

fun comprehension :: "('a \<Rightarrow> error + bool) \<Rightarrow> 'a list \<Rightarrow> error + 'a list" where
  "comprehension c [] = Inr []"
| "comprehension c (p # ps) =
     (case c p of
        Inl e \<Rightarrow> Inl e
      | Inr b \<Rightarrow>
          (case comprehension c ps of
             Inl e \<Rightarrow> Inl e
           | Inr rest \<Rightarrow> Inr (if b then p # rest else rest)))"

definition nested_filter ::
  "string \<Rightarrow> string option \<Rightarrow> PersonRead list \<Rightarrow> error + PersonRead list" where
  "nested_filter name q results =
     (case q of None \<Rightarrow> Inr results | Some v \<Rightarrow> comprehension (any_mistake name v) results)"

text \<open>Decimal rendering with zero padding, as \<^verbatim>\<open>%04d\<close> and \<^verbatim>\<open>%02d\<close> do.\<close>

fun dec :: "nat \<Rightarrow> string" where
  "dec n = (if n < 10 then [''0123456789'' ! n]
            else dec (n div 10) @ [''0123456789'' ! (n mod 10)])"

definition zfill :: "nat \<Rightarrow> string \<Rightarrow> string" where
  "zfill w s = replicate (w - length s) (CHR ''0'') @ s"

definition date_isoformat :: "'a date_scheme \<Rightarrow> string" where
  "date_isoformat d =
     zfill 4 (dec (year d)) @ ''-'' @ zfill 2 (dec (month d)) @ ''-'' @ zfill 2 (dec (day d))"

text \<open>\<^verbatim>\<open>str(p.birth_date)\<close>: the ISO form of a date, and \<^verbatim>\<open>'None'\<close> for \<^verbatim>\<open>None\<close>.\<close>

definition str_birth_date :: "date option \<Rightarrow> string" where
  "str_birth_date d = (case d of None \<Rightarrow> ''None'' | Some x \<Rightarrow> date_isoformat x)"

definition list_persons ::
  "string option \<Rightarrow> string option \<Rightarrow> string option \<Rightarrow> string option \<Rightarrow> string option \<Rightarrow>
   string option \<Rightarrow> store \<Rightarrow> error + PersonRead list" where
  "list_persons first_name' last_name' email' birth_date' grade_level' subject' st =
     (let results = dict_values (persons st);
          results = apply_filter PersonBase.first_name first_name' results;
          results = apply_filter PersonBase.last_name last_name' results;
          results = apply_filter PersonBase.email email' results;
          results = apply_filter (\<lambda>p. str_birth_date (PersonBase.birth_date p)) birth_date' results
      in (case nested_filter ''grade_level'' grade_level' results of
            Inl e \<Rightarrow> Inl e
          | Inr results \<Rightarrow> nested_filter ''subject'' subject' results))"

definition get_person :: "uuid \<Rightarrow> store \<Rightarrow> error + PersonRead" where
  "get_person person_id st =
     (if \<not> dict_contains (persons st) person_id
      then Inl (HTTPException 404 ''Person not found'')
      else dict_getitem (persons st) person_id)"

definition update_person ::
  "(string \<Rightarrow> string option) \<Rightarrow> factories \<Rightarrow> uuid \<Rightarrow> PersonUpdate \<Rightarrow> store \<Rightarrow>
   (error + PersonRead) \<times> store" where
  "update_person ev f person_id update' st =
     (if \<not> dict_contains (persons st) person_id
      then (Inl (HTTPException 404 ''Person not found''), st)
      else (case dict_getitem (persons st) person_id of
              Inl e \<Rightarrow> (Inl e, st)
            | Inr old \<Rightarrow>
                (let stored = dict_update (PersonRead_model_dump old)
                                (PersonUpdate_model_dump_exclude_unset update')
                 in (case PersonRead_init ev f stored of
                       Inl e \<Rightarrow> (Inl e, st)
                     | Inr r \<Rightarrow>
                         (let st' = st\<lparr>persons := dict_setitem (persons st) person_id r\<rparr>
                          in (dict_getitem (persons st') person_id, st'))))))"

definition delete_person :: "uuid \<Rightarrow> store \<Rightarrow> (error + unit) \<times> store" where
  "delete_person person_id st =
     (if \<not> dict_contains (persons st) person_id
      then (Inl (HTTPException 404 ''Person not found''), st)
      else (Inr (), st\<lparr>persons := dict_delitem (persons st) person_id\<rparr>))"

subsection \<open>Health endpoint\<close>

text \<open>
  Modelled from the spec: \<^verbatim>\<open>models/health.py\<close> is not among the sources. The record has
  the six fields that \<^verbatim>\<open>make_health\<close> passes by keyword; the spec calls it a fixed-shape
  record of the timestamp, the resolved address and the two optional echo inputs.
\<close>

record Health =
  status :: nat
  status_message :: string
  timestamp :: string
  ip_address :: string
  echo :: "string option"
  path_echo :: "string option"

text \<open>
  \<^verbatim>\<open>datetime.isoformat()\<close>: date, \<^verbatim>\<open>T\<close>, time of day, and the microseconds only when they
  are not zero.
\<close>

definition datetime_isoformat :: "datetime \<Rightarrow> string" where
  "datetime_isoformat t =
     date_isoformat t @ ''T'' @ zfill 2 (dec (hour t)) @ '':'' @ zfill 2 (dec (minute t)) @
     '':'' @ zfill 2 (dec (second t)) @
     (if microsecond t = 0 then [] else ''.'' @ zfill 6 (dec (microsecond t)))"

text \<open>
  \<open>now\<close> is the reading of \<^verbatim>\<open>datetime.utcnow()\<close>; \<open>resolved\<close> is the outcome of
  \<^verbatim>\<open>socket.gethostbyname(socket.gethostname())\<close>, an address or the exception it raises.
\<close>

definition make_health ::
  "datetime \<Rightarrow> error + string \<Rightarrow> string option \<Rightarrow> string option \<Rightarrow> error + Health" where
  "make_health now resolved echo' path_echo' =
     (case resolved of
        Inl e \<Rightarrow> Inl e
      | Inr ip \<Rightarrow>
          Inr \<lparr>status = 200, status_message = ''OK'',
               timestamp = datetime_isoformat now @ ''Z'',
               ip_address = ip, echo = echo', path_echo = path_echo'\<rparr>)"

definition get_health_no_path :: "datetime \<Rightarrow> error + string \<Rightarrow> string option \<Rightarrow> error + Health" where
  "get_health_no_path now resolved echo' = make_health now resolved echo' None"

definition get_health_with_path ::
  "datetime \<Rightarrow> error + string \<Rightarrow> string \<Rightarrow> string option \<Rightarrow> error + Health" where
  "get_health_with_path now resolved path_echo' echo' =
     make_health now resolved echo' (Some path_echo')"

section \<open>Sample data\<close>

text \<open>
  Concrete values for the scenarios: the identifiers and timestamps are the examples
  given in the models' schemas.
\<close>

definition T0 :: datetime where
  "T0 = \<lparr>year = 2025, month = 1, day = 15, hour = 10, minute = 20, second = 30,
          microsecond = 0\<rparr>"

definition T1 :: datetime where
  "T1 = \<lparr>year = 2025, month = 1, day = 16, hour = 12, minute = 0, second = 0,
          microsecond = 0\<rparr>"

definition T2 :: datetime where
  "T2 = \<lparr>year = 2025, month = 9, day = 5, hour = 7, minute = 3, second = 9,
          microsecond = 1234\<rparr>"

definition F0 :: factories where
  "F0 = \<lparr>uuid4 = 0x99999999999949998999999999999999, uuid4_nested = (\<lambda>i. of_nat i),
          utcnow_created = T0, utcnow_updated = T0\<rparr>"

definition F1 :: factories where
  "F1 = \<lparr>uuid4 = 0x99999999999949998999999999999999, uuid4_nested = (\<lambda>i. of_nat i),
          utcnow_created = T0, utcnow_updated = T1\<rparr>"

text \<open>Two readings of the clock one microsecond apart, within one request.\<close>

definition T0_later :: datetime where
  "T0_later = \<lparr>year = 2025, month = 1, day = 15, hour = 10, minute = 20, second = 30,
          microsecond = 1\<rparr>"

definition F2 :: factories where
  "F2 = \<lparr>uuid4 = 0x99999999999949998999999999999999, uuid4_nested = (\<lambda>i. of_nat i),
          utcnow_created = T0, utcnow_updated = T0_later\<rparr>"

definition mistake_A :: MistakeBase where
  "mistake_A = \<lparr>MistakeBase.id = 0x550e8400e29b41d4a716446655440000,
     MistakeBase.subject = ''lsat'', MistakeBase.key_concept = ''Logical Reasoning'',
     MistakeBase.prompt = ''Political scientist'', MistakeBase.correct_answer = ''D'',
     MistakeBase.wrong_answer = ''A'', MistakeBase.reflection = ''A is incorrect''\<rparr>"

definition mistake_B :: MistakeBase where
  "mistake_B = \<lparr>MistakeBase.id = 0x550e8400e29b41d4a716aaaaaaaaaaaa,
     MistakeBase.subject = ''gre'', MistakeBase.key_concept = ''Reading Comprehension'',
     MistakeBase.prompt = ''Several critics'', MistakeBase.correct_answer = ''C'',
     MistakeBase.wrong_answer = ''D'', MistakeBase.reflection = ''D says''\<rparr>"

definition mistake_C :: MistakeBase where
  "mistake_C = \<lparr>MistakeBase.id = 0x550e8400e29b41d4a716bbbbbbbbbbbb,
     MistakeBase.subject = ''LSAT'', MistakeBase.key_concept = ''Logical Reasoning'',
     MistakeBase.prompt = ''Several critics'', MistakeBase.correct_answer = ''C'',
     MistakeBase.wrong_answer = ''D'', MistakeBase.reflection = ''D says''\<rparr>"

definition read_of :: "datetime \<Rightarrow> datetime \<Rightarrow> MistakeBase \<Rightarrow> MistakeRead" where
  "read_of c u m =
     \<lparr>MistakeBase.id = MistakeBase.id m, MistakeBase.subject = MistakeBase.subject m,
      MistakeBase.key_concept = MistakeBase.key_concept m,
      MistakeBase.prompt = MistakeBase.prompt m,
      MistakeBase.correct_answer = MistakeBase.correct_answer m,
      MistakeBase.wrong_answer = MistakeBase.wrong_answer m,
      MistakeBase.reflection = MistakeBase.reflection m,
      MistakeRead.created_at = c, MistakeRead.updated_at = u\<rparr>"

definition empty_store :: store where
  "empty_store = \<lparr>persons = [], mistakes = []\<rparr>"

definition store_A :: store where
  "store_A = snd (create_mistake F0 mistake_A empty_store)"

definition store_ABC :: store where
  "store_ABC = snd (create_mistake F0 mistake_C (snd (create_mistake F0 mistake_B store_A)))"

definition only_subject :: "string \<Rightarrow> MistakeUpdate" where
  "only_subject x =
     \<lparr>MistakeUpdate.subject = Given (Some x), MistakeUpdate.key_concept = Unset,
      MistakeUpdate.prompt = Unset, MistakeUpdate.correct_answer = Unset,
      MistakeUpdate.wrong_answer = Unset, MistakeUpdate.reflection = Unset\<rparr>"

definition ev0 :: "string \<Rightarrow> string option" where
  "ev0 s = (if CHR ''@'' \<in> set s then Some s else None)"

definition person_P :: PersonBase where
  "person_P = \<lparr>PersonBase.first_name = ''Ada'', PersonBase.last_name = ''Smith'',
     PersonBase.email = ''ada@example.com'',
     PersonBase.birth_date = Some \<lparr>year = 2004, month = 12, day = 10\<rparr>,
     PersonBase.grade_level = Some ''9-12'', PersonBase.mistake = [mistake_A]\<rparr>"

definition person_Q :: PersonBase where
  "person_Q = \<lparr>PersonBase.first_name = ''Susan'', PersonBase.last_name = ''Lee'',
     PersonBase.email = ''susanlee@gmail.com'',
     PersonBase.birth_date = Some \<lparr>year = 1998, month = 6, day = 10\<rparr>,
     PersonBase.grade_level = Some ''Undergrad'', PersonBase.mistake = []\<rparr>"

definition payload_Q :: kwargs where
  "payload_Q = [(''id'', PUuid 0x11111111111141118111111111111111),
     (''first_name'', PStr ''Susan''), (''last_name'', PStr ''Lee''),
     (''email'', PStr ''susanlee@gmail.com''),
     (''birth_date'', PDate \<lparr>year = 1998, month = 6, day = 10\<rparr>),
     (''grade_level'', PStr ''Undergrad'')]"

definition person_read_of :: "uuid \<Rightarrow> datetime \<Rightarrow> datetime \<Rightarrow> PersonBase \<Rightarrow> PersonRead" where
  "person_read_of i c u p =
     \<lparr>PersonBase.first_name = PersonBase.first_name p,
      PersonBase.last_name = PersonBase.last_name p,
      PersonBase.email = PersonBase.email p,
      PersonBase.birth_date = PersonBase.birth_date p,
      PersonBase.grade_level = PersonBase.grade_level p,
      PersonBase.mistake = PersonBase.mistake p,
      PersonRead.id = i, PersonRead.created_at = c, PersonRead.updated_at = u\<rparr>"

definition store_P :: store where
  "store_P = snd (create_person ev0 F0 person_P empty_store)"

definition only_grade_level :: "string \<Rightarrow> PersonUpdate" where
  "only_grade_level g =
     \<lparr>PersonUpdate.first_name = Unset, PersonUpdate.last_name = Unset,
      PersonUpdate.email = Unset, PersonUpdate.birth_date = Unset,
      PersonUpdate.grade_level = Given (Some g), PersonUpdate.mistake = Unset\<rparr>"

section \<open>Predicates used in the statements\<close>

text \<open>A record passes a query filter when the filter is absent or the field equals it.\<close>

definition matches :: "('a \<Rightarrow> string) \<Rightarrow> string option \<Rightarrow> 'a \<Rightarrow> bool" where
  "matches attr q = (case q of None \<Rightarrow> (\<lambda>a. True) | Some v \<Rightarrow> (\<lambda>a. attr a = v))"

text \<open>The annotation \<^verbatim>\<open>Optional[GradeLevel]\<close>: absent, or one of the seven tags.\<close>

definition grade_level_ok :: "string option \<Rightarrow> bool" where
  "grade_level_ok g = (case g of None \<Rightarrow> True | Some x \<Rightarrow> x \<in> set GradeLevel)"

text \<open>
  What holds of a \<^verbatim>\<open>PersonCreate\<close> instance that came out of validation: its address is
  one the email check returns unchanged, and its grade level fits the annotation.
\<close>

definition PersonCreate_valid :: "(string \<Rightarrow> string option) \<Rightarrow> PersonCreate \<Rightarrow> bool" where
  "PersonCreate_valid ev p =
     (ev (PersonBase.email p) = Some (PersonBase.email p)
      \<and> grade_level_ok (PersonBase.grade_level p))"

text \<open>
  The invariant on the Person store, the distinctness of the keys of both stores, and
  the stores that the handlers can build from the empty ones.
\<close>

definition grade_levels_ok :: "store \<Rightarrow> bool" where
  "grade_levels_ok st =
     list_all (\<lambda>p. grade_level_ok (PersonBase.grade_level p)) (dict_values (persons st))"

definition keys_distinct :: "store \<Rightarrow> bool" where
  "keys_distinct st = (distinct (map fst (persons st)) \<and> distinct (map fst (mistakes st)))"

inductive reachable :: "(string \<Rightarrow> string option) \<Rightarrow> store \<Rightarrow> bool" for ev where
  start: "reachable ev \<lparr>persons = [], mistakes = []\<rparr>"
| after_create_mistake: "reachable ev st \<Longrightarrow> reachable ev (snd (create_mistake f m st))"
| after_update_mistake: "reachable ev st \<Longrightarrow> reachable ev (snd (update_mistake f i u st))"
| after_delete_mistake: "reachable ev st \<Longrightarrow> reachable ev (snd (delete_mistake i st))"
| after_create_person: "reachable ev st \<Longrightarrow> reachable ev (snd (create_person ev f p st))"
| after_update_person: "reachable ev st \<Longrightarrow> reachable ev (snd (update_person ev f i v st))"
| after_delete_person: "reachable ev st \<Longrightarrow> reachable ev (snd (delete_person i st))"

text \<open>
  The values \<^verbatim>\<open>datetime.utcnow()\<close> can return, and the two forms of an ISO-8601 timestamp
  in UTC: in a pattern, \<^verbatim>\<open>d\<close> stands for a decimal digit and every other character for
  itself.
\<close>

definition datetime_valid :: "datetime \<Rightarrow> bool" where
  "datetime_valid t =
     (1 \<le> year t \<and> year t \<le> 9999 \<and> 1 \<le> month t \<and> month t \<le> 12 \<and> 1 \<le> day t \<and> day t \<le> 31
      \<and> hour t < 24 \<and> minute t < 60 \<and> second t < 60 \<and> microsecond t < 1000000)"

fun fits :: "string \<Rightarrow> string \<Rightarrow> bool" where
  "fits [] [] = True"
| "fits (p # ps) (c # cs) =
     ((if p = CHR ''d'' then c \<in> set ''0123456789'' else c = p) \<and> fits ps cs)"
| "fits _ _ = False"

definition iso8601_utc :: "string \<Rightarrow> bool" where
  "iso8601_utc s =
     (fits ''dddd-dd-ddTdd:dd:ddZ'' s \<or> fits ''dddd-dd-ddTdd:dd:dd.ddddddZ'' s)"

section \<open>Dictionaries and constructors\<close>

lemma map_of_dict_setitem: "map_of (dict_setitem d k v) = (map_of d)(k \<mapsto> v)"
  by (induction d k v rule: dict_setitem.induct) auto

lemma map_of_dict_delitem: "map_of (dict_delitem d k) = (map_of d)(k := None)"
  unfolding dict_delitem_def by (induction d) auto

lemma map_of_dict_update: "map_of (dict_update d e) = map_of d ++ map_of (rev e)"
proof (induction d e rule: dict_update.induct)
  case (1 d)
  then show ?case by simp
next
  case (2 d k v e)
  have "map_of (dict_update d ((k, v) # e)) = map_of (dict_setitem d k v) ++ map_of (rev e)"
    using 2 by simp
  also have "\<dots> = (map_of d)(k \<mapsto> v) ++ map_of (rev e)"
    by (simp only: map_of_dict_setitem)
  also have "\<dots> = map_of d ++ (map_of [(k, v)] ++ map_of (rev e))"
    by (rule ext) (simp add: map_add_def split: option.splits)
  also have "\<dots> = map_of d ++ map_of (rev ((k, v) # e))"
    by simp
  finally show ?case .
qed

lemma dict_getitem_setitem: "dict_getitem (dict_setitem d k v) k = Inr v"
  by (simp add: dict_getitem_def map_of_dict_setitem)

lemma MistakeRead_validate_dump:
  "MistakeRead_validate f (MistakeBase_model_dump (m :: MistakeBase)) =
     Some (read_of (utcnow_created f) (utcnow_updated f) m)"
  by (simp add: MistakeRead_validate_def MistakeBase_model_dump_def read_of_def)

lemma MistakeBase_validate_dump:
  "MistakeBase_validate fresh (MistakeBase_model_dump (m :: MistakeBase)) = Some m"
  by (simp add: MistakeBase_validate_def MistakeBase_model_dump_def)

lemma create_mistake_fresh:
  assumes "\<not> dict_contains (mistakes st) (MistakeBase.id m)"
  shows "create_mistake f m st =
     (Inr (read_of (utcnow_created f) (utcnow_updated f) m),
      st\<lparr>mistakes := dict_setitem (mistakes st) (MistakeBase.id m)
                        (read_of (utcnow_created f) (utcnow_updated f) m)\<rparr>)"
  using assms
  by (simp add: create_mistake_def MistakeRead_init_def MistakeRead_validate_dump
        dict_getitem_setitem Let_def)

lemma update_mistake_only_subject:
  "update_mistake f i (only_subject x) st =
     (case map_of (mistakes st) i of
        None \<Rightarrow> (Inl (HTTPException 404 ''Mistake not found''), st)
      | Some old \<Rightarrow>
          (Inr (old\<lparr>MistakeBase.subject := x\<rparr>),
           st\<lparr>mistakes := dict_setitem (mistakes st) i (old\<lparr>MistakeBase.subject := x\<rparr>)\<rparr>))"
proof (cases "map_of (mistakes st) i")
  case None
  then show ?thesis by (simp add: update_mistake_def dict_contains_def)
next
  case (Some old)
  then show ?thesis
    by (cases old)
       (simp add: update_mistake_def dict_contains_def dict_getitem_def MistakeRead_init_def
          MistakeRead_validate_def MistakeRead_model_dump_def MistakeBase_model_dump_def
          MistakeUpdate_model_dump_exclude_unset_def only_subject_def map_of_dict_setitem
          Let_def)
qed

lemma store_A_eq:
  "store_A = \<lparr>persons = [], mistakes = [(MistakeBase.id mistake_A, read_of T0 T0 mistake_A)]\<rparr>"
  by (simp add: store_A_def create_mistake_fresh empty_store_def dict_contains_def F0_def)

lemma store_ABC_eq:
  "store_ABC = \<lparr>persons = [],
     mistakes = [(MistakeBase.id mistake_A, read_of T0 T0 mistake_A),
                 (MistakeBase.id mistake_B, read_of T0 T0 mistake_B),
                 (MistakeBase.id mistake_C, read_of T0 T0 mistake_C)]\<rparr>"
  by (simp add: store_ABC_def store_A_eq create_mistake_fresh dict_contains_def F0_def
        mistake_A_def mistake_B_def mistake_C_def)

section \<open>Mistake store\<close>

text \<open>
  C1. A patch that supplies only \<^verbatim>\<open>subject\<close> is claimed to change \<^verbatim>\<open>subject\<close> and to refresh
  \<^verbatim>\<open>updated_at\<close> to the current time. The handler rebuilds the record from the stored
  dump, which already holds \<^verbatim>\<open>updated_at\<close>, so no clock is read: for the record created at
  \<open>T0\<close> and patched when the clock reads \<open>T1\<close>, the returned \<^verbatim>\<open>updated_at\<close> is still \<open>T0\<close>.
  Every other field is unchanged, as claimed (lemma \<open>update_mistake_only_subject\<close>).
\<close>

theorem C1_update_keeps_updated_at:
  "fst (update_mistake F1 (MistakeBase.id mistake_A) (only_subject ''X'') store_A) =
     Inr ((read_of T0 T0 mistake_A)\<lparr>MistakeBase.subject := ''X''\<rparr>)
   \<and> MistakeRead.updated_at ((read_of T0 T0 mistake_A)\<lparr>MistakeBase.subject := ''X''\<rparr>) = T0
   \<and> utcnow_updated F1 = T1 \<and> T0 \<noteq> T1"
  by (simp add: update_mistake_only_subject store_A_eq read_of_def F1_def T0_def T1_def)

text \<open>
  C3. Creating a Mistake whose identifier is already a key of the store raises the
  \<^verbatim>\<open>HTTPException\<close> with status 400 and leaves both stores as they were.
\<close>

theorem C3_create_mistake_conflict:
  assumes "dict_contains (mistakes st) (MistakeBase.id m)"
  shows "create_mistake f m st =
           (Inl (HTTPException 400 ''Mistake with this ID already exists''), st)
         \<and> status_of 201 (fst (create_mistake f m st)) = 400
         \<and> mistakes (snd (create_mistake f m st)) = mistakes st"
  using assms by (simp add: create_mistake_def)

text \<open>C3, at the store that holds Mistake A: creating A again.\<close>

theorem C3_witness:
  "dict_contains (mistakes store_A) (MistakeBase.id mistake_A)
   \<and> create_mistake F1 mistake_A store_A =
       (Inl (HTTPException 400 ''Mistake with this ID already exists''), store_A)"
  using C3_create_mistake_conflict [of store_A mistake_A F1]
  by (simp add: store_A_eq dict_contains_def)

text \<open>
  C4 as stated fails: \<^verbatim>\<open>created_at\<close> and \<^verbatim>\<open>updated_at\<close> each have their own
  \<^verbatim>\<open>default_factory=datetime.utcnow\<close>, so they are two readings of the clock. When the
  second reading is a microsecond after the first, the returned record's \<^verbatim>\<open>created_at\<close> is
  not its \<^verbatim>\<open>updated_at\<close>.
\<close>

theorem C4_counterexample:
  "fst (create_mistake F2 mistake_A empty_store) = Inr (read_of T0 T0_later mistake_A)
   \<and> MistakeRead.created_at (read_of T0 T0_later mistake_A)
       \<noteq> MistakeRead.updated_at (read_of T0 T0_later mistake_A)"
  by (simp add: create_mistake_fresh empty_store_def dict_contains_def F2_def read_of_def
        T0_def T0_later_def)

text \<open>
  C4, amended. Creating a Mistake whose identifier is not a key of the store succeeds
  with status 201; the record carries the payload's fields, \<^verbatim>\<open>created_at\<close> is the first
  clock reading and \<^verbatim>\<open>updated_at\<close> the second; the record returned is the one stored under
  the identifier; the two timestamps are equal exactly when the two readings are.
\<close>

theorem C4_create_mistake_fresh:
  assumes "\<not> dict_contains (mistakes st) (MistakeBase.id m)"
  shows "\<exists>r st'. create_mistake f m st = (Inr r, st')
           \<and> status_of 201 (fst (create_mistake f m st)) = 201
           \<and> MistakeRead.created_at r = utcnow_created f
           \<and> MistakeRead.updated_at r = utcnow_updated f
           \<and> (MistakeRead.created_at r = MistakeRead.updated_at r)
               = (utcnow_created f = utcnow_updated f)
           \<and> MistakeBase.truncate r = m
           \<and> get_mistakes (MistakeBase.id m) st' = Inr r
           \<and> persons st' = persons st
           \<and> (\<forall>k. k \<noteq> MistakeBase.id m \<longrightarrow> map_of (mistakes st') k = map_of (mistakes st) k)"
  using assms
  by (simp add: create_mistake_fresh get_mistakes_def dict_contains_def dict_getitem_def
        map_of_dict_setitem read_of_def MistakeBase.truncate_def)

text \<open>C4, amended, at the empty store: Mistake A created with both readings \<open>T0\<close>.\<close>

theorem C4_witness:
  "\<not> dict_contains (mistakes empty_store) (MistakeBase.id mistake_A)
   \<and> create_mistake F0 mistake_A empty_store = (Inr (read_of T0 T0 mistake_A), store_A)
   \<and> get_mistakes (MistakeBase.id mistake_A) store_A = Inr (read_of T0 T0 mistake_A)"
  using C4_create_mistake_fresh [of empty_store mistake_A F0]
  by (simp add: store_A_eq create_mistake_fresh empty_store_def dict_contains_def F0_def
        get_mistakes_def dict_getitem_def)

lemma update_mistake_present:
  assumes "dict_contains (mistakes st) i"
  shows "fst (update_mistake f i u st) = Inl ValidationError
         \<or> (\<exists>r. fst (update_mistake f i u st) = Inr r)"
  using assms
  by (auto simp: update_mistake_def dict_contains_def dict_getitem_def MistakeRead_init_def
        map_of_dict_setitem Let_def split: option.splits)

text \<open>
  C5. \<^verbatim>\<open>get\<close>, \<^verbatim>\<open>update\<close> and \<^verbatim>\<open>delete\<close> of a Mistake raise the 404 \<^verbatim>\<open>HTTPException\<close> exactly
  when the identifier is not a key of the store. On a key, \<^verbatim>\<open>get\<close> returns a record and
  \<^verbatim>\<open>delete\<close> succeeds, after which \<^verbatim>\<open>get\<close> raises the 404. Off a key, \<^verbatim>\<open>delete\<close> and
  \<^verbatim>\<open>update\<close> leave the store, and so its size, as it was.
\<close>

theorem C5_mistake_not_found:
  "(get_mistakes i st = Inl (HTTPException 404 ''Mistake not found''))
     = (\<not> dict_contains (mistakes st) i)
   \<and> (fst (update_mistake f i u st) = Inl (HTTPException 404 ''Mistake not found''))
     = (\<not> dict_contains (mistakes st) i)
   \<and> (fst (delete_mistake i st) = Inl (HTTPException 404 ''Mistake not found''))
     = (\<not> dict_contains (mistakes st) i)
   \<and> (dict_contains (mistakes st) i \<longrightarrow>
        (\<exists>r. get_mistakes i st = Inr r)
        \<and> fst (delete_mistake i st) = Inr ()
        \<and> get_mistakes i (snd (delete_mistake i st)) = Inl (HTTPException 404 ''Mistake not found'')
        \<and> status_of 200 (get_mistakes i (snd (delete_mistake i st))) = 404)
   \<and> (\<not> dict_contains (mistakes st) i \<longrightarrow>
        snd (delete_mistake i st) = st
        \<and> length (mistakes (snd (delete_mistake i st))) = length (mistakes st)
        \<and> snd (update_mistake f i u st) = st)"
proof -
  have g: "(get_mistakes i st = Inl (HTTPException 404 ''Mistake not found''))
     = (\<not> dict_contains (mistakes st) i)"
    by (auto simp: get_mistakes_def dict_contains_def dict_getitem_def)
  have u: "(fst (update_mistake f i u st) = Inl (HTTPException 404 ''Mistake not found''))
     = (\<not> dict_contains (mistakes st) i)"
  proof (cases "dict_contains (mistakes st) i")
    case True
    with update_mistake_present [OF True, of f u] show ?thesis by auto
  next
    case False
    then show ?thesis by (simp add: update_mistake_def)
  qed
  have d: "(fst (delete_mistake i st) = Inl (HTTPException 404 ''Mistake not found''))
     = (\<not> dict_contains (mistakes st) i)"
    by (simp add: delete_mistake_def)
  have p: "dict_contains (mistakes st) i \<longrightarrow>
        (\<exists>r. get_mistakes i st = Inr r)
        \<and> fst (delete_mistake i st) = Inr ()
        \<and> get_mistakes i (snd (delete_mistake i st)) = Inl (HTTPException 404 ''Mistake not found'')
        \<and> status_of 200 (get_mistakes i (snd (delete_mistake i st))) = 404"
    by (auto simp: get_mistakes_def delete_mistake_def dict_contains_def dict_getitem_def
          map_of_dict_delitem)
  have a: "\<not> dict_contains (mistakes st) i \<longrightarrow>
        snd (delete_mistake i st) = st
        \<and> length (mistakes (snd (delete_mistake i st))) = length (mistakes st)
        \<and> snd (update_mistake f i u st) = st"
    by (simp add: delete_mistake_def update_mistake_def)
  from g u d p a show ?thesis by blast
qed

text \<open>
  C5, at the store that holds Mistake A only: A is found, and is gone after its
  deletion; B is not found, and deleting B leaves one record.
\<close>

theorem C5_witness:
  "dict_contains (mistakes store_A) (MistakeBase.id mistake_A)
   \<and> get_mistakes (MistakeBase.id mistake_A) store_A = Inr (read_of T0 T0 mistake_A)
   \<and> get_mistakes (MistakeBase.id mistake_A) (snd (delete_mistake (MistakeBase.id mistake_A) store_A))
       = Inl (HTTPException 404 ''Mistake not found'')
   \<and> \<not> dict_contains (mistakes store_A) (MistakeBase.id mistake_B)
   \<and> get_mistakes (MistakeBase.id mistake_B) store_A = Inl (HTTPException 404 ''Mistake not found'')
   \<and> length (mistakes (snd (delete_mistake (MistakeBase.id mistake_B) store_A))) = 1"
  using C5_mistake_not_found [of "MistakeBase.id mistake_A" store_A F1 "only_subject ''X''"]
        C5_mistake_not_found [of "MistakeBase.id mistake_B" store_A F1 "only_subject ''X''"]
  by (simp add: store_A_eq dict_contains_def get_mistakes_def dict_getitem_def
        mistake_A_def mistake_B_def)

lemma apply_filter_eq: "apply_filter attr q xs = filter (matches attr q) xs"
  by (cases q) (simp_all add: apply_filter_def matches_def)

text \<open>
  C6. Without filters the list is the sequence of stored records, in the dictionary's
  order; when the keys are distinct (as in every store the handlers build) these are
  exactly the records that \<^verbatim>\<open>get\<close> returns for some identifier. With a \<^verbatim>\<open>subject\<close> filter the
  result holds exactly the stored records whose \<^verbatim>\<open>subject\<close> is that string. In general a
  record is listed exactly when it passes every supplied filter, by equality of strings;
  an absent filter lets every record pass.
\<close>

theorem C6_list_mistakes:
  "list_mistakes None None None None None None st = dict_values (mistakes st)
   \<and> (distinct (map fst (mistakes st)) \<longrightarrow>
        set (list_mistakes None None None None None None st)
          = {r. \<exists>i. get_mistakes i st = Inr r})
   \<and> set (list_mistakes (Some s) None None None None None st)
       = {a \<in> set (dict_values (mistakes st)). MistakeBase.subject a = s}
   \<and> set (list_mistakes q1 q2 q3 q4 q5 q6 st)
       = {a \<in> set (dict_values (mistakes st)).
            matches MistakeBase.subject q1 a \<and> matches MistakeBase.key_concept q2 a
            \<and> matches MistakeBase.prompt q3 a \<and> matches MistakeBase.correct_answer q4 a
            \<and> matches MistakeBase.wrong_answer q5 a \<and> matches MistakeBase.reflection q6 a}"
proof -
  have a: "list_mistakes None None None None None None st = dict_values (mistakes st)"
    by (simp add: list_mistakes_def apply_filter_def)
  have g: "\<And>i r. (get_mistakes i st = Inr r) = (map_of (mistakes st) i = Some r)"
    by (auto simp: get_mistakes_def dict_contains_def dict_getitem_def split: option.splits)
  have d: "distinct (map fst (mistakes st)) \<longrightarrow>
        set (list_mistakes None None None None None None st)
          = {r. \<exists>i. get_mistakes i st = Inr r}"
    unfolding a g by (force simp: dict_values_def)
  have b: "set (list_mistakes (Some s) None None None None None st)
       = {a \<in> set (dict_values (mistakes st)). MistakeBase.subject a = s}"
    by (simp add: list_mistakes_def apply_filter_def)
  have c: "set (list_mistakes q1 q2 q3 q4 q5 q6 st)
       = {a \<in> set (dict_values (mistakes st)).
            matches MistakeBase.subject q1 a \<and> matches MistakeBase.key_concept q2 a
            \<and> matches MistakeBase.prompt q3 a \<and> matches MistakeBase.correct_answer q4 a
            \<and> matches MistakeBase.wrong_answer q5 a \<and> matches MistakeBase.reflection q6 a}"
    by (auto simp: list_mistakes_def apply_filter_eq)
  from a b c d show ?thesis by simp
qed

text \<open>
  C6, at the store that holds A (\<^verbatim>\<open>lsat\<close>), B (\<^verbatim>\<open>gre\<close>) and C (\<^verbatim>\<open>LSAT\<close>): the filter
  \<^verbatim>\<open>subject=lsat\<close> returns A only.
\<close>

theorem C6_witness:
  "distinct (map fst (mistakes store_ABC))
   \<and> list_mistakes None None None None None None store_ABC
     = [read_of T0 T0 mistake_A, read_of T0 T0 mistake_B, read_of T0 T0 mistake_C]
   \<and> list_mistakes (Some ''lsat'') None None None None None store_ABC = [read_of T0 T0 mistake_A]
   \<and> list_mistakes (Some ''lsat'') (Some ''Reading Comprehension'') None None None None store_ABC = []"
  using C6_list_mistakes [of store_ABC "''lsat''" None None None None None None]
  by (simp add: list_mistakes_def apply_filter_def store_ABC_eq dict_values_def read_of_def
        mistake_A_def mistake_B_def mistake_C_def)

section \<open>Person store\<close>

lemma validate_entries_dump:
  "validate_entries g i (map (\<lambda>m. PDict (MistakeBase_model_dump m)) ms) = Some ms"
  by (induction ms arbitrary: i) (simp_all add: MistakeBase_validate_dump)

lemma PersonRead_validate_dump:
  assumes "PersonCreate_valid ev p"
  shows "PersonRead_validate ev f (PersonBase_model_dump p) =
           Some (person_read_of (uuid4 f) (utcnow_created f) (utcnow_updated f) p)"
proof -
  have gl: "grade_level_optional (Some (dump_str (PersonBase.grade_level p)))
              = Some (PersonBase.grade_level p)"
    using assms
    by (cases "PersonBase.grade_level p")
       (simp_all add: PersonCreate_valid_def grade_level_ok_def dump_str_def)
  have bd: "date_optional (Some (dump_date (PersonBase.birth_date p)))
              = Some (PersonBase.birth_date p)"
    by (cases "PersonBase.birth_date p") (simp_all add: dump_date_def)
  have em: "ev (PersonBase.email p) = Some (PersonBase.email p)"
    using assms by (simp add: PersonCreate_valid_def)
  show ?thesis
    by (simp add: PersonRead_validate_def PersonBase_model_dump_def gl bd em dump_mistakes_def
          validate_entries_dump person_read_of_def)
qed

lemma create_person_valid:
  assumes "PersonCreate_valid ev p"
  shows "create_person ev f p st =
     (Inr (person_read_of (uuid4 f) (utcnow_created f) (utcnow_updated f) p),
      st\<lparr>persons := dict_setitem (persons st) (uuid4 f)
                       (person_read_of (uuid4 f) (utcnow_created f) (utcnow_updated f) p)\<rparr>)"
  by (simp add: create_person_def PersonRead_init_def PersonRead_validate_dump [OF assms]
        person_read_of_def)

lemma create_person_no_http:
  "fst (create_person ev f p st) \<noteq> Inl (HTTPException c d)"
  by (simp add: create_person_def PersonRead_init_def split: option.splits)

lemma person_P_valid: "PersonCreate_valid ev0 person_P"
  by (simp add: PersonCreate_valid_def person_P_def ev0_def grade_level_ok_def GradeLevel_def)

lemma person_Q_valid: "PersonCreate_valid ev0 person_Q"
  by (simp add: PersonCreate_valid_def person_Q_def ev0_def grade_level_ok_def GradeLevel_def)

lemma store_P_eq:
  "store_P = \<lparr>persons = [(uuid4 F0, person_read_of (uuid4 F0) T0 T0 person_P)], mistakes = []\<rparr>"
  by (simp add: store_P_def create_person_valid [OF person_P_valid] empty_store_def F0_def)

text \<open>
  \<^verbatim>\<open>PersonRead\<close> declares the field \<^verbatim>\<open>mistake\<close>; the nested filters read \<^verbatim>\<open>p.mistakes\<close>. The
  lookup fails for every Person, so a nested filter raises as soon as one candidate is
  left to test.
\<close>

lemma any_mistake_raises: "any_mistake name v p = Inl AttributeError"
  by (simp add: any_mistake_def getattr_def PersonRead_model_dump_def PersonBase_model_dump_def)

lemma comprehension_any_mistake:
  "comprehension (any_mistake name v) ps = (if ps = [] then Inr [] else Inl AttributeError)"
  by (cases ps) (simp_all add: any_mistake_raises)

lemma list_persons_nested_raises:
  assumes "persons st \<noteq> []"
  shows "list_persons None None None None (Some g) q st = Inl AttributeError"
    and "list_persons None None None None None (Some s) st = Inl AttributeError"
  using assms
  by (simp_all add: list_persons_def apply_filter_def nested_filter_def dict_values_def
        comprehension_any_mistake)

text \<open>
  C2. The list query with \<^verbatim>\<open>subject\<close> or \<^verbatim>\<open>grade_level\<close> is claimed to return the Persons
  with a matching embedded entry. In the store that holds one Person, whose only
  embedded entry has subject \<^verbatim>\<open>lsat\<close>, the query \<^verbatim>\<open>subject=lsat\<close> raises \<^verbatim>\<open>AttributeError\<close>
  instead of returning that Person, and so does the query \<^verbatim>\<open>grade_level=9-12\<close>.
\<close>

theorem C2_list_persons_raises:
  "list_persons None None None None None (Some ''lsat'') store_P = Inl AttributeError
   \<and> list_persons None None None None (Some ''9-12'') None store_P = Inl AttributeError
   \<and> dict_values (persons store_P) = [person_read_of (uuid4 F0) T0 T0 person_P]
   \<and> map MistakeBase.subject (PersonBase.mistake (person_read_of (uuid4 F0) T0 T0 person_P))
       = [''lsat'']"
  by (simp add: list_persons_nested_raises store_P_eq dict_values_def person_read_of_def
        person_P_def mistake_A_def)

lemma PersonBase_validate_grade:
  assumes "PersonBase_validate ev f kw = Some p"
  shows "grade_level_ok (PersonBase.grade_level p)"
proof -
  from assms obtain gl where g: "grade_level_optional (map_of kw ''grade_level'') = Some gl"
    and p: "PersonBase.grade_level p = gl"
    by (auto simp: PersonBase_validate_def split: Option.bind_splits)
  from g have "grade_level_ok gl"
    by (cases "(map_of kw ''grade_level'')" rule: grade_level_optional.cases)
       (auto simp: grade_level_ok_def split: if_splits)
  with p show ?thesis by simp
qed

lemma PersonRead_validate_grade:
  assumes "PersonRead_validate ev f kw = Some p"
  shows "grade_level_ok (PersonBase.grade_level p)"
proof -
  from assms obtain gl where g: "grade_level_optional (map_of kw ''grade_level'') = Some gl"
    and p: "PersonBase.grade_level p = gl"
    by (auto simp: PersonRead_validate_def split: Option.bind_splits)
  from g have "grade_level_ok gl"
    by (cases "(map_of kw ''grade_level'')" rule: grade_level_optional.cases)
       (auto simp: grade_level_ok_def split: if_splits)
  with p show ?thesis by simp
qed

lemma PersonBase_validate_email:
  assumes "PersonBase_validate ev f kw = Some p"
  shows "\<exists>s. ev s = Some (PersonBase.email p)"
proof -
  from assms obtain em where g: "email_required ev (map_of kw ''email'') = Some em"
    and p: "PersonBase.email p = em"
    by (auto simp: PersonBase_validate_def split: Option.bind_splits)
  from g have "\<exists>s. ev s = Some em"
    by (cases "(ev, map_of kw ''email'')" rule: email_required.cases) auto
  with p show ?thesis by simp
qed

lemma PersonBase_validate_mistake_default:
  assumes "PersonBase_validate ev f kw = Some p" and "map_of kw ''mistake'' = None"
  shows "PersonBase.mistake p = []"
  using assms by (auto simp: PersonBase_validate_def split: Option.bind_splits)

lemma PersonCreate_init_valid:
  assumes "PersonCreate_init ev f kw = Inr p" and "\<forall>s t. ev s = Some t \<longrightarrow> ev t = Some t"
  shows "PersonCreate_valid ev p"
proof -
  from assms(1) have v: "PersonBase_validate ev f kw = Some p"
    by (simp add: PersonCreate_init_def split: option.splits)
  from PersonBase_validate_email [OF v] assms(2)
  have "ev (PersonBase.email p) = Some (PersonBase.email p)" by blast
  with PersonBase_validate_grade [OF v] show ?thesis by (simp add: PersonCreate_valid_def)
qed

text \<open>
  C7. Whatever the payload holds (an \<^verbatim>\<open>id\<close> key included), a payload that validates as
  \<^verbatim>\<open>PersonCreate\<close> is stored under the identifier that \<^verbatim>\<open>uuid4\<close> returns while
  \<^verbatim>\<open>PersonRead\<close> is built, and that identifier is the record's \<^verbatim>\<open>id\<close>; when the payload has no
  \<^verbatim>\<open>mistake\<close> key, the stored embedded collection is empty. The email check is assumed to
  accept again, unchanged, an address it has returned.
\<close>

theorem C7_create_person_id_and_default:
  assumes "PersonCreate_init ev f payload = Inr person"
    and "\<forall>s t. ev s = Some t \<longrightarrow> ev t = Some t"
  shows "\<exists>r. create_person ev f' person st =
               (Inr r, st\<lparr>persons := dict_setitem (persons st) (uuid4 f') r\<rparr>)
             \<and> PersonRead.id r = uuid4 f'
             \<and> get_person (uuid4 f') (snd (create_person ev f' person st)) = Inr r
             \<and> (map_of payload ''mistake'' = None \<longrightarrow> PersonBase.mistake r = [])"
proof -
  have v: "PersonCreate_valid ev person" using assms by (rule PersonCreate_init_valid)
  from assms(1) have b: "PersonBase_validate ev f payload = Some person"
    by (simp add: PersonCreate_init_def split: option.splits)
  have m: "map_of payload ''mistake'' = None \<longrightarrow> PersonBase.mistake person = []"
    using PersonBase_validate_mistake_default [OF b] by blast
  show ?thesis
    using m
    by (simp add: create_person_valid [OF v] person_read_of_def get_person_def
          dict_contains_def dict_getitem_def map_of_dict_setitem)
qed

lemma ev0_idem: "\<forall>s t. ev0 s = Some t \<longrightarrow> ev0 t = Some t"
  by (simp add: ev0_def split: if_splits)

lemma payload_Q_init: "PersonCreate_init ev0 F1 payload_Q = Inr person_Q"
  by (simp add: PersonCreate_init_def PersonBase_validate_def payload_Q_def person_Q_def
        ev0_def GradeLevel_def)

text \<open>
  C7, at a payload that supplies an \<^verbatim>\<open>id\<close> of its own and no \<^verbatim>\<open>mistake\<close>: the stored
  identifier is the generated one and the embedded collection is empty.
\<close>

theorem C7_witness:
  "PersonCreate_init ev0 F1 payload_Q = Inr person_Q
   \<and> map_of payload_Q ''id'' = Some (PUuid 0x11111111111141118111111111111111)
   \<and> map_of payload_Q ''mistake'' = None
   \<and> fst (create_person ev0 F0 person_Q empty_store)
       = Inr (person_read_of 0x99999999999949998999999999999999 T0 T0 person_Q)
   \<and> PersonBase.mistake (person_read_of 0x99999999999949998999999999999999 T0 T0 person_Q) = []"
proof -
  have i: "map_of payload_Q ''id'' = Some (PUuid 0x11111111111141118111111111111111)"
    by (simp add: payload_Q_def)
  have m: "map_of payload_Q ''mistake'' = None"
    by (simp add: payload_Q_def)
  have c: "fst (create_person ev0 F0 person_Q empty_store)
       = Inr (person_read_of 0x99999999999949998999999999999999 T0 T0 person_Q)"
    by (simp add: create_person_valid [OF person_Q_valid] F0_def)
  from C7_create_person_id_and_default [OF payload_Q_init ev0_idem, of F0 empty_store] m c
  have e: "PersonBase.mistake (person_read_of 0x99999999999949998999999999999999 T0 T0 person_Q) = []"
    by auto
  from payload_Q_init i m c e show ?thesis by simp
qed

lemma length_dict_setitem:
  "length (dict_setitem d k v) = (if dict_contains d k then length d else Suc (length d))"
  by (induction d k v rule: dict_setitem.induct) (auto simp: dict_contains_def)

text \<open>
  C10. \<^verbatim>\<open>create_person\<close> has no membership test. For a valid \<^verbatim>\<open>PersonCreate\<close> it stores the
  new record under the generated identifier and returns it with status 201; a later
  \<^verbatim>\<open>get\<close> of that identifier returns the new record, and when the identifier was already
  a key the store keeps its size, the old record being replaced. No execution raises an
  \<^verbatim>\<open>HTTPException\<close>, so none raises the 400 of a conflict.
\<close>

theorem C10_create_person_never_conflicts:
  "(PersonCreate_valid ev person \<longrightarrow>
      create_person ev f person st =
        (Inr (person_read_of (uuid4 f) (utcnow_created f) (utcnow_updated f) person),
         st\<lparr>persons := dict_setitem (persons st) (uuid4 f)
              (person_read_of (uuid4 f) (utcnow_created f) (utcnow_updated f) person)\<rparr>)
      \<and> status_of 201 (fst (create_person ev f person st)) = 201
      \<and> get_person (uuid4 f) (snd (create_person ev f person st))
          = Inr (person_read_of (uuid4 f) (utcnow_created f) (utcnow_updated f) person)
      \<and> (dict_contains (persons st) (uuid4 f) \<longrightarrow>
           length (persons (snd (create_person ev f person st))) = length (persons st)))
   \<and> (\<forall>c d. fst (create_person ev f person st) \<noteq> Inl (HTTPException c d))"
proof -
  have n: "\<forall>c d. fst (create_person ev f person st) \<noteq> Inl (HTTPException c d)"
    by (simp add: create_person_no_http)
  have v: "PersonCreate_valid ev person \<longrightarrow>
      create_person ev f person st =
        (Inr (person_read_of (uuid4 f) (utcnow_created f) (utcnow_updated f) person),
         st\<lparr>persons := dict_setitem (persons st) (uuid4 f)
              (person_read_of (uuid4 f) (utcnow_created f) (utcnow_updated f) person)\<rparr>)
      \<and> status_of 201 (fst (create_person ev f person st)) = 201
      \<and> get_person (uuid4 f) (snd (create_person ev f person st))
          = Inr (person_read_of (uuid4 f) (utcnow_created f) (utcnow_updated f) person)
      \<and> (dict_contains (persons st) (uuid4 f) \<longrightarrow>
           length (persons (snd (create_person ev f person st))) = length (persons st))"
    by (simp add: create_person_valid get_person_def dict_contains_def dict_getitem_def
          map_of_dict_setitem length_dict_setitem)
  from n v show ?thesis by blast
qed

text \<open>
  C10, at the store that holds Ada under the identifier that \<^verbatim>\<open>uuid4\<close> returns again:
  creating Susan replaces Ada.
\<close>

theorem C10_witness:
  "PersonCreate_valid ev0 person_Q
   \<and> dict_contains (persons store_P) (uuid4 F0)
   \<and> get_person (uuid4 F0) store_P = Inr (person_read_of (uuid4 F0) T0 T0 person_P)
   \<and> get_person (uuid4 F0) (snd (create_person ev0 F0 person_Q store_P))
       = Inr (person_read_of (uuid4 F0) T0 T0 person_Q)
   \<and> length (persons (snd (create_person ev0 F0 person_Q store_P))) = 1
   \<and> person_read_of (uuid4 F0) T0 T0 person_Q \<noteq> person_read_of (uuid4 F0) T0 T0 person_P"
proof -
  have c: "dict_contains (persons store_P) (uuid4 F0)"
    by (simp add: store_P_eq dict_contains_def)
  have g: "get_person (uuid4 F0) store_P = Inr (person_read_of (uuid4 F0) T0 T0 person_P)"
    by (simp add: store_P_eq get_person_def dict_contains_def dict_getitem_def)
  have t: "utcnow_created F0 = T0" "utcnow_updated F0 = T0"
    by (simp_all add: F0_def)
  have l: "length (persons store_P) = 1"
    by (simp add: store_P_eq)
  have n: "person_read_of (uuid4 F0) T0 T0 person_Q \<noteq> person_read_of (uuid4 F0) T0 T0 person_P"
    by (simp add: person_read_of_def person_P_def person_Q_def)
  note x = C10_create_person_never_conflicts [of ev0 person_Q F0 store_P,
               THEN conjunct1, THEN mp, OF person_Q_valid]
  have a: "get_person (uuid4 F0) (snd (create_person ev0 F0 person_Q store_P))
          = Inr (person_read_of (uuid4 F0) T0 T0 person_Q)"
    using x [THEN conjunct2, THEN conjunct2, THEN conjunct1] unfolding t .
  have b: "length (persons (snd (create_person ev0 F0 person_Q store_P))) = 1"
    using x [THEN conjunct2, THEN conjunct2, THEN conjunct2, THEN mp, OF c] unfolding l .
  from person_Q_valid c g a b n show ?thesis by blast
qed

subsection \<open>The grade level of stored Persons\<close>

text \<open>
  Every stored Person is the result of \<^verbatim>\<open>PersonRead(**kw)\<close>, which checks \<^verbatim>\<open>grade_level\<close> against
  the seven tags; so the invariant holds in every store the handlers build, whatever
  their inputs.
\<close>

lemma set_values_setitem:
  "set (dict_values (dict_setitem d k v)) \<subseteq> insert v (set (dict_values d))"
  by (induction d k v rule: dict_setitem.induct) (auto simp: dict_values_def)

lemma set_values_delitem: "set (dict_values (dict_delitem d k)) \<subseteq> set (dict_values d)"
  by (auto simp: dict_values_def dict_delitem_def)

lemma distinct_setitem:
  "distinct (map fst d) \<Longrightarrow> distinct (map fst (dict_setitem d k v))"
proof (induction d k v rule: dict_setitem.induct)
  case (1 k v)
  then show ?case by simp
next
  case (2 k' v' d k v)
  have "fst ` set (dict_setitem d k v) \<subseteq> insert k (fst ` set d)"
    by (induction d k v rule: dict_setitem.induct) auto
  with 2 show ?case by auto
qed

lemma distinct_delitem:
  "distinct (map fst d) \<Longrightarrow> distinct (map fst (dict_delitem d k))"
  by (simp add: dict_delitem_def distinct_map_filter)

lemma grade_levels_setitem:
  assumes "grade_levels_ok st" and "grade_level_ok (PersonBase.grade_level r)"
  shows "grade_levels_ok (st\<lparr>persons := dict_setitem (persons st) k r\<rparr>)"
  using assms set_values_setitem [of "persons st" k r]
  by (auto simp: grade_levels_ok_def list_all_iff)

lemma PersonRead_init_grade:
  "PersonRead_init ev f kw = Inr r \<Longrightarrow> grade_level_ok (PersonBase.grade_level r)"
  by (auto simp: PersonRead_init_def split: option.splits dest: PersonRead_validate_grade)

lemma create_person_grade_levels:
  assumes "grade_levels_ok st"
  shows "grade_levels_ok (snd (create_person ev f p st))"
proof (cases "PersonRead_init ev f (PersonBase_model_dump p)")
  case (Inl e)
  with assms show ?thesis by (simp add: create_person_def)
next
  case (Inr r)
  with assms PersonRead_init_grade [OF Inr] show ?thesis
    by (simp add: create_person_def grade_levels_setitem)
qed

lemma update_person_grade_levels:
  assumes "grade_levels_ok st"
  shows "grade_levels_ok (snd (update_person ev f i u st))"
proof (cases "map_of (persons st) i")
  case None
  with assms show ?thesis by (simp add: update_person_def dict_contains_def)
next
  case (Some old)
  show ?thesis
  proof (cases "PersonRead_init ev f (dict_update (PersonRead_model_dump old)
                  (PersonUpdate_model_dump_exclude_unset u))")
    case (Inl e)
    with Some assms show ?thesis
      by (simp add: update_person_def dict_contains_def dict_getitem_def)
  next
    case (Inr r)
    with Some assms PersonRead_init_grade [OF Inr] show ?thesis
      by (simp add: update_person_def dict_contains_def dict_getitem_def Let_def
            grade_levels_setitem)
  qed
qed

lemma delete_person_grade_levels:
  assumes "grade_levels_ok st"
  shows "grade_levels_ok (snd (delete_person i st))"
  using assms set_values_delitem [of "persons st" i]
  by (auto simp: delete_person_def grade_levels_ok_def list_all_iff)

lemma mistake_handlers_keep_persons:
  "persons (snd (create_mistake f m st)) = persons st"
  "persons (snd (update_mistake f i u st)) = persons st"
  "persons (snd (delete_mistake i st)) = persons st"
  by (simp_all add: create_mistake_def update_mistake_def delete_mistake_def Let_def
        split: sum.splits)

lemma reachable_grade_levels_ok: "reachable ev st \<Longrightarrow> grade_levels_ok st"
proof (induction rule: reachable.induct)
  case start
  then show ?case by (simp add: grade_levels_ok_def dict_values_def)
next
  case (after_create_mistake st f m)
  then show ?case by (simp add: grade_levels_ok_def mistake_handlers_keep_persons)
next
  case (after_update_mistake st f i u)
  then show ?case by (simp add: grade_levels_ok_def mistake_handlers_keep_persons)
next
  case (after_delete_mistake st i)
  then show ?case by (simp add: grade_levels_ok_def mistake_handlers_keep_persons)
next
  case (after_create_person st f p)
  then show ?case by (simp add: create_person_grade_levels)
next
  case (after_update_person st f i v)
  then show ?case by (simp add: update_person_grade_levels)
next
  case (after_delete_person st i)
  then show ?case by (simp add: delete_person_grade_levels)
qed

lemma PersonCreate_init_rejects_grade_level:
  assumes "map_of payload ''grade_level'' = Some (PStr g)" and "g \<notin> set GradeLevel"
  shows "PersonCreate_init ev f payload = Inl ValidationError"
  using assms by (simp add: PersonCreate_init_def PersonBase_validate_def)

lemma dump_field_rev: "rev (dump_field n c x) = dump_field n c x"
  by (induction n c x rule: dump_field.induct) simp_all

lemma map_of_dump_field_other: "k \<noteq> n \<Longrightarrow> map_of (dump_field n c x) k = None"
  by (induction n c x rule: dump_field.induct) simp_all

lemma patch_grade_level:
  assumes "PersonUpdate.grade_level u = Given (Some g)"
  shows "map_of (rev (PersonUpdate_model_dump_exclude_unset u)) ''grade_level'' = Some (PStr g)"
  using assms
  by (simp add: PersonUpdate_model_dump_exclude_unset_def dump_field_rev map_add_def
        map_of_dump_field_other)

lemma update_person_rejects_grade_level:
  assumes "dict_contains (persons st) i"
    and "PersonUpdate.grade_level u = Given (Some g)" and "g \<notin> set GradeLevel"
  shows "update_person ev f i u st = (Inl ValidationError, st)"
proof -
  from assms(1) obtain old where o: "map_of (persons st) i = Some old"
    by (auto simp: dict_contains_def)
  have "map_of (dict_update (PersonRead_model_dump old)
          (PersonUpdate_model_dump_exclude_unset u)) ''grade_level'' = Some (PStr g)"
    by (simp add: map_of_dict_update map_add_def patch_grade_level [OF assms(2)])
  with assms(3) have "PersonRead_validate ev f (dict_update (PersonRead_model_dump old)
          (PersonUpdate_model_dump_exclude_unset u)) = None"
    by (simp add: PersonRead_validate_def)
  with o assms(1) show ?thesis
    by (simp add: update_person_def dict_getitem_def PersonRead_init_def)
qed

lemma reachable_keys_distinct: "reachable ev st \<Longrightarrow> keys_distinct st"
  by (induction rule: reachable.induct)
     (auto simp: keys_distinct_def create_mistake_def update_mistake_def delete_mistake_def
        create_person_def update_person_def delete_person_def Let_def distinct_setitem
        distinct_delitem split: sum.splits)

text \<open>
  C8. The invariant holds (lemma \<open>reachable_grade_levels_ok\<close>), and a create payload with
  a grade level outside the set is rejected with \<^verbatim>\<open>ValidationError\<close> (lemma
  \<open>PersonCreate_init_rejects_grade_level\<close>). \<^verbatim>\<open>PersonUpdate\<close> however declares
  \<^verbatim>\<open>grade_level: Optional[str]\<close>, so a patch with \<^verbatim>\<open>undergraduate\<close> passes payload validation
  and reaches the handler: for an identifier that is not stored the outcome is the 404
  \<^verbatim>\<open>HTTPException\<close>, not a \<^verbatim>\<open>ValidationError\<close>; for a stored one the \<^verbatim>\<open>ValidationError\<close> is
  raised inside the handler by \<^verbatim>\<open>PersonRead(**stored)\<close>, which the framework answers with
  status 500.
\<close>

theorem C8_update_person_grade_level:
  "''undergraduate'' \<notin> set GradeLevel
   \<and> \<not> dict_contains (persons store_P) 0x42
   \<and> update_person ev0 F0 0x42 (only_grade_level ''undergraduate'') store_P
       = (Inl (HTTPException 404 ''Person not found''), store_P)
   \<and> update_person ev0 F0 (uuid4 F0) (only_grade_level ''undergraduate'') store_P
       = (Inl ValidationError, store_P)
   \<and> status_of 200 (Inl ValidationError :: error + PersonRead) = 500"
proof -
  have g: "''undergraduate'' \<notin> set GradeLevel" by (simp add: GradeLevel_def)
  have a: "\<not> dict_contains (persons store_P) 0x42"
    by (simp add: store_P_eq dict_contains_def F0_def)
  have p: "dict_contains (persons store_P) (uuid4 F0)"
    by (simp add: store_P_eq dict_contains_def)
  have u: "PersonUpdate.grade_level (only_grade_level ''undergraduate'') = Given (Some ''undergraduate'')"
    by (simp add: only_grade_level_def)
  from a have n: "update_person ev0 F0 0x42 (only_grade_level ''undergraduate'') store_P
       = (Inl (HTTPException 404 ''Person not found''), store_P)"
    by (simp add: update_person_def)
  from g a n update_person_rejects_grade_level [OF p u g] show ?thesis by simp
qed

section \<open>Health report\<close>

declare dec.simps [simp del]

lemma fits_append:
  "length p = length s \<Longrightarrow> fits (p @ p') (s @ s') = (fits p s \<and> fits p' s')"
  by (induction p s rule: fits.induct) auto

lemma fits_digits:
  "fits (replicate w (CHR ''d'')) s = (length s = w \<and> set s \<subseteq> set ''0123456789'')"
proof (induction w arbitrary: s)
  case 0
  then show ?case by (cases s) simp_all
next
  case (Suc w)
  then show ?case by (cases s) auto
qed

lemma digit_in: "n < 10 \<Longrightarrow> ''0123456789'' ! n \<in> set ''0123456789''"
  by (rule nth_mem) simp

lemma set_dec: "set (dec n) \<subseteq> set ''0123456789''"
proof (induction n rule: dec.induct)
  case (1 n)
  show ?case
  proof (cases "n < 10")
    case True
    with digit_in [of n] show ?thesis by (subst dec.simps) simp
  next
    case False
    have "n mod 10 < 10" by simp
    with False 1 digit_in [of "n mod 10"] show ?thesis by (subst dec.simps) simp
  qed
qed

lemma length_dec: "0 < k \<Longrightarrow> n < 10 ^ k \<Longrightarrow> length (dec n) \<le> k"
proof (induction k arbitrary: n)
  case 0
  then show ?case by simp
next
  case (Suc k)
  show ?case
  proof (cases "n < 10")
    case True
    then show ?thesis by (subst dec.simps) simp
  next
    case False
    with Suc.prems have k: "0 < k" by (cases k) auto
    from Suc.prems have "n div 10 < 10 ^ k" by (simp add: less_mult_imp_div_less mult.commute)
    with Suc.IH k have "length (dec (n div 10)) \<le> k" by blast
    with False show ?thesis by (subst dec.simps) simp
  qed
qed

lemma fits_zfill:
  assumes "0 < w" and "n < 10 ^ w"
  shows "fits (replicate w (CHR ''d'')) (zfill w (dec n))"
proof -
  from assms have "length (dec n) \<le> w" by (rule length_dec)
  then have "length (zfill w (dec n)) = w" by (simp add: zfill_def)
  moreover have "set (zfill w (dec n)) \<subseteq> set ''0123456789''"
    using set_dec [of n] by (auto simp: zfill_def)
  ultimately show ?thesis by (simp only: fits_digits)
qed

lemma length_zfill_dec: "0 < w \<Longrightarrow> n < 10 ^ w \<Longrightarrow> length (zfill w (dec n)) = w"
  using fits_zfill [of w n] by (simp only: fits_digits)

lemma datetime_isoformat_fits:
  assumes "datetime_valid t"
  shows "iso8601_utc (datetime_isoformat t @ ''Z'')"
proof -
  from assms have y: "year t < 10 ^ 4" and m: "month t < 10 ^ 2" and d: "day t < 10 ^ 2"
    and h: "hour t < 10 ^ 2" and mi: "minute t < 10 ^ 2" and s: "second t < 10 ^ 2"
    and u: "microsecond t < 10 ^ 6"
    by (simp_all add: datetime_valid_def)
  have short: "''dddd-dd-ddTdd:dd:ddZ'' =
      replicate 4 (CHR ''d'') @ ''-'' @ replicate 2 (CHR ''d'') @ ''-'' @ replicate 2 (CHR ''d'')
      @ ''T'' @ replicate 2 (CHR ''d'') @ '':'' @ replicate 2 (CHR ''d'') @ '':''
      @ replicate 2 (CHR ''d'') @ ''Z''"
    by (simp add: eval_nat_numeral)
  have long: "''dddd-dd-ddTdd:dd:dd.ddddddZ'' =
      replicate 4 (CHR ''d'') @ ''-'' @ replicate 2 (CHR ''d'') @ ''-'' @ replicate 2 (CHR ''d'')
      @ ''T'' @ replicate 2 (CHR ''d'') @ '':'' @ replicate 2 (CHR ''d'') @ '':''
      @ replicate 2 (CHR ''d'') @ ''.'' @ replicate 6 (CHR ''d'') @ ''Z''"
    by (simp add: eval_nat_numeral)
  have sep: "\<And>c ps cs. c \<noteq> CHR ''d'' \<Longrightarrow> fits ([c] @ ps) ([c] @ cs) = fits ps cs"
    by simp
  note f = fits_zfill [OF _ y] fits_zfill [OF _ m] fits_zfill [OF _ d] fits_zfill [OF _ h]
    fits_zfill [OF _ mi] fits_zfill [OF _ s] fits_zfill [OF _ u]
  note l = length_zfill_dec [OF _ y] length_zfill_dec [OF _ m] length_zfill_dec [OF _ d]
    length_zfill_dec [OF _ h] length_zfill_dec [OF _ mi] length_zfill_dec [OF _ s]
    length_zfill_dec [OF _ u]
  show ?thesis
  proof (cases "microsecond t = 0")
    case True
    have "fits ''dddd-dd-ddTdd:dd:ddZ'' (datetime_isoformat t @ ''Z'')"
      unfolding short datetime_isoformat_def date_isoformat_def
      using f l True by (simp add: fits_append)
    then show ?thesis by (simp add: iso8601_utc_def)
  next
    case False
    have "fits ''dddd-dd-ddTdd:dd:dd.ddddddZ'' (datetime_isoformat t @ ''Z'')"
      unfolding long datetime_isoformat_def date_isoformat_def
      using f l False by (simp add: fits_append)
    then show ?thesis by (simp add: iso8601_utc_def)
  qed
qed

lemma isoformat_T0: "datetime_isoformat T0 = ''2025-01-15T10:20:30''"
  by code_simp

lemma isoformat_T2: "datetime_isoformat T2 = ''2025-09-05T07:03:09.001234''"
  by code_simp

text \<open>
  C9. Given a resolved address, \<^verbatim>\<open>make_health\<close> returns the record whose \<^verbatim>\<open>echo\<close> and
  \<^verbatim>\<open>path_echo\<close> are its two inputs, unchanged (\<open>None\<close> when not supplied), and whose
  timestamp is the ISO form of the clock reading followed by \<^verbatim>\<open>Z\<close>, which for every reading
  the clock can return has the shape of an ISO-8601 timestamp. It raises only when the
  address resolution raises, and then raises that exception. The route without a path
  passes \<open>None\<close> for \<^verbatim>\<open>path_echo\<close>; the route with a path passes the path segment.
\<close>

theorem C9_make_health:
  "make_health now (Inr ip) e p =
     Inr \<lparr>status = 200, status_message = ''OK'', timestamp = datetime_isoformat now @ ''Z'',
          ip_address = ip, echo = e, path_echo = p\<rparr>
   \<and> (\<forall>err. (make_health now resolved e p = Inl err) = (resolved = Inl err))
   \<and> last (datetime_isoformat now @ ''Z'') = CHR ''Z''
   \<and> (datetime_valid now \<longrightarrow> iso8601_utc (datetime_isoformat now @ ''Z''))
   \<and> get_health_no_path now resolved e = make_health now resolved e None
   \<and> get_health_with_path now resolved pe e = make_health now resolved e (Some pe)"
proof -
  have a: "\<forall>err. (make_health now resolved e p = Inl err) = (resolved = Inl err)"
    by (cases resolved) (auto simp: make_health_def)
  show ?thesis
    using a
    by (simp add: make_health_def get_health_no_path_def get_health_with_path_def
          datetime_isoformat_fits)
qed

text \<open>
  C9, at two clock readings, one with and one without microseconds, and at a failed
  address resolution.
\<close>

theorem C9_witness:
  "datetime_valid T2
   \<and> make_health T2 (Inr ''10.0.0.7'') (Some ''hi'') None =
       Inr \<lparr>status = 200, status_message = ''OK'', timestamp = ''2025-09-05T07:03:09.001234Z'',
            ip_address = ''10.0.0.7'', echo = Some ''hi'', path_echo = None\<rparr>
   \<and> make_health T0 (Inr ''10.0.0.7'') None (Some ''abc'') =
       Inr \<lparr>status = 200, status_message = ''OK'', timestamp = ''2025-01-15T10:20:30Z'',
            ip_address = ''10.0.0.7'', echo = None, path_echo = Some ''abc''\<rparr>
   \<and> iso8601_utc ''2025-09-05T07:03:09.001234Z''
   \<and> make_health T2 (Inl GaiError) None None = Inl GaiError"
proof -
  have v: "datetime_valid T2" by (simp add: datetime_valid_def T2_def)
  note c = C9_make_health [of T2 "''10.0.0.7''" "Some ''hi''" None "Inl GaiError" "''x''"]
  note c0 = C9_make_health [of T0 "''10.0.0.7''" None "Some ''abc''" "Inl GaiError" "''x''"]
  have a: "make_health T2 (Inr ''10.0.0.7'') (Some ''hi'') None =
       Inr \<lparr>status = 200, status_message = ''OK'', timestamp = ''2025-09-05T07:03:09.001234Z'',
            ip_address = ''10.0.0.7'', echo = Some ''hi'', path_echo = None\<rparr>"
    using c [THEN conjunct1] by (simp add: isoformat_T2)
  have a0: "make_health T0 (Inr ''10.0.0.7'') None (Some ''abc'') =
       Inr \<lparr>status = 200, status_message = ''OK'', timestamp = ''2025-01-15T10:20:30Z'',
            ip_address = ''10.0.0.7'', echo = None, path_echo = Some ''abc''\<rparr>"
    using c0 [THEN conjunct1] by (simp add: isoformat_T0)
  have i: "iso8601_utc ''2025-09-05T07:03:09.001234Z''"
    using c [THEN conjunct2, THEN conjunct2, THEN conjunct2, THEN conjunct1, THEN mp, OF v]
    by (simp add: isoformat_T2)
  have g: "make_health T2 (Inl GaiError) None None = Inl GaiError"
    by (simp add: make_health_def)
  from v a a0 i g show ?thesis by blast
qed

end
